theory Spec2Isabelle
  imports Main "HOL-Library.Signed_Division"
begin

section \<open>JavaScript values used by the page\<close>

text \<open>
  The index state of \<open>HomePage\<close> is a JavaScript number. Every number the page computes
  from its initial state \<open>0\<close> is an integer far below \<open>2^53\<close>, where doubles are exact, so
  a number is an integer or \<open>NaN\<close> (the result of a remainder by zero).
\<close>

datatype jsnum = Num int | NaN

text \<open>\<open>a + b\<close> on numbers: \<open>NaN\<close> is absorbing.\<close>

fun js_add :: "jsnum \<Rightarrow> jsnum \<Rightarrow> jsnum" where
  "js_add (Num a) (Num b) = Num (a + b)"
| "js_add _ _ = NaN"

text \<open>
  \<open>a % b\<close> on numbers: the remainder of the truncating division (its sign is the sign of
  the dividend), and \<open>NaN\<close> when the divisor is zero or an operand is \<open>NaN\<close>.
\<close>

fun js_rem :: "jsnum \<Rightarrow> jsnum \<Rightarrow> jsnum" where
  "js_rem (Num a) (Num b) = (if b = 0 then NaN else Num (a smod b))"
| "js_rem _ _ = NaN"

text \<open>
  \<open>xs[i]\<close> on an array: the element when \<open>i\<close> is an integer index inside the array,
  \<open>undefined\<close> (here \<open>None\<close>) otherwise; reading never throws.
\<close>

fun js_index :: "'a list \<Rightarrow> jsnum \<Rightarrow> 'a option" where
  "js_index xs (Num i) = (if 0 \<le> i \<and> i < int (length xs) then Some (xs ! nat i) else None)"
| "js_index xs NaN = None"

section \<open>The rotating word of HomePage\<close>

text \<open>\<open>const rotatingWords = ["lazy", "busy", ...]\<close>\<close>

definition rotatingWords :: "string list" where
  "rotatingWords =
     [''lazy'', ''busy'', ''overwhelmed'', ''ambitious'', ''procrastinating'', ''cracked'']"

text \<open>The delay literal passed to \<open>setInterval\<close>, in milliseconds.\<close>

definition intervalMs :: int where
  "intervalMs = 2000"

text \<open>
  The state updater of the interval callback,
  \<open>(prev) => (prev + 1) % rotatingWords.length\<close>, with the length of the word list as a
  parameter.
\<close>

definition advance :: "jsnum \<Rightarrow> int \<Rightarrow> jsnum" where
  "advance prev len = js_rem (js_add prev (Num 1)) (Num len)"

text \<open>
  The part of the browser and of React that the component touches: the React state
  \<open>currentWordIndex\<close>, the browser's table of active interval timers (handle to delay),
  the next free handle, and the handle \<open>interval\<close> captured by the effect's closure.
\<close>

record page =
  currentWordIndex :: jsnum
  timers :: "nat \<rightharpoonup> int"
  next_handle :: nat
  interval :: "nat option"

text \<open>\<open>setInterval(callback, delay)\<close> registers a timer and returns its handle.\<close>

definition setInterval :: "int \<Rightarrow> page \<Rightarrow> nat \<times> page" where
  "setInterval delay p =
     (next_handle p,
      p\<lparr>timers := (timers p)(next_handle p \<mapsto> delay), next_handle := Suc (next_handle p)\<rparr>)"

text \<open>\<open>clearInterval(handle)\<close> removes the timer; an unknown handle is ignored.\<close>

definition clearInterval :: "nat \<Rightarrow> page \<Rightarrow> page" where
  "clearInterval h p = p\<lparr>timers := (timers p)(h := None)\<rparr>"

text \<open>A page in which nothing is mounted yet.\<close>

definition blank :: page where
  "blank = \<lparr>currentWordIndex = NaN, timers = Map.empty, next_handle = 1, interval = None\<rparr>"

text \<open>
  Mounting \<open>HomePage\<close>: \<open>useState(0)\<close>, then the effect with the empty dependency list
  runs once and keeps the handle of its timer. The word list and the delay are the
  module constant and the literal of the source, taken as parameters.
\<close>

definition HomePage_mount :: "string list \<Rightarrow> int \<Rightarrow> page" where
  "HomePage_mount ws delay =
     (let (h, p) = setInterval delay (blank\<lparr>currentWordIndex := Num 0\<rparr>)
      in p\<lparr>interval := Some h\<rparr>)"

text \<open>The cleanup returned by the effect: \<open>() => clearInterval(interval)\<close>.\<close>

definition stop :: "page \<Rightarrow> page" where
  "stop p = (case interval p of None \<Rightarrow> p | Some h \<Rightarrow> clearInterval h p)"

text \<open>
  One interval elapses for the timer \<open>h\<close>: the browser runs the callback when the timer
  is still in its table, and does nothing otherwise.
\<close>

definition fire :: "string list \<Rightarrow> nat \<Rightarrow> page \<Rightarrow> page" where
  "fire ws h p =
     (case timers p h of
        None \<Rightarrow> p
      | Some _ \<Rightarrow> p\<lparr>currentWordIndex := advance (currentWordIndex p) (int (length ws))\<rparr>)"

text \<open>The simulated clock moves past one interval, and past \<open>k\<close> intervals.\<close>

definition tick :: "string list \<Rightarrow> page \<Rightarrow> page" where
  "tick ws p = (case interval p of None \<Rightarrow> p | Some h \<Rightarrow> fire ws h p)"

fun ticks :: "nat \<Rightarrow> string list \<Rightarrow> page \<Rightarrow> page" where
  "ticks 0 ws p = p"
| "ticks (Suc k) ws p = ticks k ws (tick ws p)"

text \<open>The rendered expression \<open>{rotatingWords[currentWordIndex]}\<close>.\<close>

definition displayed :: "string list \<Rightarrow> page \<Rightarrow> string option" where
  "displayed ws p = js_index ws (currentWordIndex p)"

text \<open>The advance step applied \<open>k\<close> times to an index.\<close>

fun advance_times :: "nat \<Rightarrow> int \<Rightarrow> jsnum \<Rightarrow> jsnum" where
  "advance_times 0 len i = i"
| "advance_times (Suc k) len i = advance_times k len (advance i len)"

text \<open>The timer of the page is registered: the effect's handle is in the browser's table.\<close>

definition started :: "page \<Rightarrow> bool" where
  "started p = (case interval p of None \<Rightarrow> False | Some h \<Rightarrow> timers p h \<noteq> None)"

section \<open>The theme configuration of RootLayout and of the stylesheet build\<close>

text \<open>
  The properties that \<open>RootLayout\<close> passes to the theme provider,
  \<open><ThemeProvider defaultTheme="light" storageKey="angel-ui-theme">\<close>.
\<close>

record ThemeProvider_props =
  defaultTheme :: string
  storageKey :: string

definition RootLayout :: ThemeProvider_props where
  "RootLayout = \<lparr>defaultTheme = ''light'', storageKey = ''angel-ui-theme''\<rparr>"

text \<open>The \<open>darkMode\<close> entry of the Tailwind configuration.\<close>

definition darkMode :: string where
  "darkMode = ''class''"

section \<open>The theme preference\<close>

text \<open>
  Modelled from the spec: the theme provider and the theme toggle
  (\<open>@/components/theme-provider\<close>, \<open>@/components/theme-toggle\<close>) are imported by the
  page and the layout but their code is not among the sources. The definitions of this
  section follow the specification of ThemePreference: the enumeration, the persisted
  key-value entry, and the operations \<open>initialize\<close>, \<open>toggle\<close> and \<open>apply\<close>.
\<close>

datatype ThemeValue = Light | Dark

text \<open>Modelled from the spec: the literal strings that are persisted.\<close>

fun theme_name :: "ThemeValue \<Rightarrow> string" where
  "theme_name Light = ''light''"
| "theme_name Dark = ''dark''"

definition parse_theme :: "string \<Rightarrow> ThemeValue option" where
  "parse_theme s =
     (if s = ''light'' then Some Light else if s = ''dark'' then Some Dark else None)"

text \<open>
  Modelled from the spec: the durable key-value store of the browser, which may be
  unavailable (disabled storage); then reading and writing fail.
\<close>

datatype storage = Unavailable | Available "string \<rightharpoonup> string"

datatype storage_error = StorageDisabled

definition getItem :: "storage \<Rightarrow> string \<Rightarrow> storage_error + string option" where
  "getItem st k = (case st of Unavailable \<Rightarrow> Inl StorageDisabled | Available m \<Rightarrow> Inr (m k))"

definition setItem :: "storage \<Rightarrow> string \<Rightarrow> string \<Rightarrow> storage_error + storage" where
  "setItem st k v =
     (case st of Unavailable \<Rightarrow> Inl StorageDisabled | Available m \<Rightarrow> Inr (Available (m(k \<mapsto> v))))"

text \<open>
  Modelled from the spec: \<open>initialize(storageKey, defaultValue)\<close> reads the persisted
  value; a read failure, a missing entry and a value other than the two literals all
  give the default.
\<close>

definition initialize :: "storage \<Rightarrow> string \<Rightarrow> ThemeValue \<Rightarrow> ThemeValue" where
  "initialize st key defaultValue =
     (case getItem st key of
        Inl _ \<Rightarrow> defaultValue
      | Inr None \<Rightarrow> defaultValue
      | Inr (Some s) \<Rightarrow> (case parse_theme s of None \<Rightarrow> defaultValue | Some t \<Rightarrow> t))"

text \<open>Modelled from the spec: \<open>toggle(current)\<close>.\<close>

fun toggle :: "ThemeValue \<Rightarrow> ThemeValue" where
  "toggle Light = Dark"
| "toggle Dark = Light"

text \<open>
  Modelled from the spec: the state that \<open>apply(value)\<close> changes, namely the value
  broadcast to the descendants, the persisted storage and the class on the root element;
  a failing write leaves the storage as it was.
\<close>

record theme_state =
  broadcast :: ThemeValue
  persisted :: storage
  root_class :: string

definition apply_theme :: "string \<Rightarrow> ThemeValue \<Rightarrow> theme_state \<Rightarrow> theme_state" where
  "apply_theme key v s =
     s\<lparr>broadcast := v,
       persisted := (case setItem (persisted s) key (theme_name v) of
                       Inl _ \<Rightarrow> persisted s
                     | Inr st \<Rightarrow> st),
       root_class := theme_name v\<rparr>"

section \<open>Properties of the advance step\<close>

lemma smod_nonneg: "0 \<le> a \<Longrightarrow> 0 < b \<Longrightarrow> a smod b = a mod (b::int)"
  by (simp add: signed_modulo_int_def sgn_if)

lemma advance_Num: "0 \<le> i \<Longrightarrow> 0 < n \<Longrightarrow> advance (Num i) n = Num ((i + 1) mod n)"
  by (simp add: advance_def smod_nonneg)

lemma advance_times_Num:
  "0 \<le> i \<Longrightarrow> i < n \<Longrightarrow> advance_times k n (Num i) = Num ((i + int k) mod n)"
proof (induction k arbitrary: i)
  case 0
  then show ?case by simp
next
  case (Suc k)
  have pos: "0 < n"
    using Suc.prems by simp
  have step: "advance (Num i) n = Num ((i + 1) mod n)"
    using Suc.prems(1) pos by (rule advance_Num)
  have nonneg: "0 \<le> (i + 1) mod n" and less: "(i + 1) mod n < n"
    using pos by simp_all
  have "advance_times (Suc k) n (Num i) = Num (((i + 1) mod n + int k) mod n)"
    using Suc.IH [OF nonneg less] step by simp
  also have "((i + 1) mod n + int k) mod n = (i + int (Suc k)) mod n"
    by (simp add: mod_add_left_eq add.assoc)
  finally show ?case .
qed

text \<open>The index held by the page after \<open>k\<close> intervals, while its timer is active.\<close>

lemma tick_active:
  "interval p = Some h \<Longrightarrow> timers p h = Some d \<Longrightarrow>
   tick ws p = p\<lparr>currentWordIndex := advance (currentWordIndex p) (int (length ws))\<rparr>"
  by (simp add: tick_def fire_def)

lemma ticks_active:
  "interval p = Some h \<Longrightarrow> timers p h = Some d \<Longrightarrow>
   ticks k ws p =
     p\<lparr>currentWordIndex := advance_times k (int (length ws)) (currentWordIndex p)\<rparr>"
proof (induction k arbitrary: p)
  case 0
  then show ?case by simp
next
  case (Suc k)
  let ?q = "p\<lparr>currentWordIndex := advance (currentWordIndex p) (int (length ws))\<rparr>"
  have q: "tick ws p = ?q"
    using Suc.prems by (rule tick_active)
  have "ticks k ws ?q =
      ?q\<lparr>currentWordIndex := advance_times k (int (length ws)) (currentWordIndex ?q)\<rparr>"
    using Suc.prems by (intro Suc.IH) simp_all
  then show ?case by (simp add: q)
qed

text \<open>With its timer removed, the page does not change when intervals elapse.\<close>

lemma tick_cleared: "interval p = Some h \<Longrightarrow> timers p h = None \<Longrightarrow> tick ws p = p"
  by (simp add: tick_def fire_def)

lemma ticks_cleared: "interval p = Some h \<Longrightarrow> timers p h = None \<Longrightarrow> ticks k ws p = p"
  by (induction k) (simp_all add: tick_cleared)

lemma ticks_unmounted: "interval p = None \<Longrightarrow> ticks k ws p = p"
  by (induction k) (simp_all add: tick_def)

lemma mount_fields:
  "currentWordIndex (HomePage_mount ws d) = Num 0"
  "interval (HomePage_mount ws d) = Some 1"
  "timers (HomePage_mount ws d) 1 = Some d"
  by (simp_all add: HomePage_mount_def setInterval_def blank_def)

lemma ticks_mount:
  "ws \<noteq> [] \<Longrightarrow>
   currentWordIndex (ticks k ws (HomePage_mount ws d)) = Num (int k mod int (length ws))"
proof -
  assume ne: "ws \<noteq> []"
  have "ticks k ws (HomePage_mount ws d) =
      (HomePage_mount ws d)\<lparr>currentWordIndex :=
        advance_times k (int (length ws)) (currentWordIndex (HomePage_mount ws d))\<rparr>"
    by (rule ticks_active) (rule mount_fields)+
  then have "currentWordIndex (ticks k ws (HomePage_mount ws d)) =
      advance_times k (int (length ws)) (Num 0)"
    by (simp add: mount_fields)
  also have "\<dots> = Num ((0 + int k) mod int (length ws))"
    using ne by (intro advance_times_Num) simp_all
  finally show ?thesis by simp
qed

lemma displayed_mount:
  "ws \<noteq> [] \<Longrightarrow> displayed ws (ticks k ws (HomePage_mount ws d)) = Some (ws ! (k mod length ws))"
proof -
  assume ne: "ws \<noteq> []"
  have lt: "int k mod int (length ws) < int (length ws)"
    using ne by simp
  have "nat (int k mod int (length ws)) = k mod length ws"
    by (simp add: nat_mod_distrib)
  with lt show ?thesis
    using ne by (simp add: displayed_def ticks_mount)
qed

section \<open>The cycler\<close>

text \<open>
  C1 (cycle closure): for every word-list length \<open>n \<ge> 1\<close> and every starting index \<open>i\<close>
  with \<open>0 \<le> i < n\<close>, applying the advance step \<open>(currentIndex + 1) mod length\<close> exactly
  \<open>n\<close> times returns to \<open>i\<close>.
\<close>

theorem advance_cycle_closure:
  assumes "1 \<le> n" and "0 \<le> i" and "i < n"
  shows "advance_times (nat n) n (Num i) = Num i"
proof -
  have "advance_times (nat n) n (Num i) = Num ((i + int (nat n)) mod n)"
    using assms by (intro advance_times_Num) simp_all
  also have "(i + int (nat n)) mod n = i"
    using assms by simp
  finally show ?thesis .
qed

theorem advance_cycle_closure_witness:
  "(1::int) \<le> 6 \<and> (0::int) \<le> 4 \<and> (4::int) < 6 \<and> advance_times (nat 6) 6 (Num 4) = Num 4"
  using advance_cycle_closure [of 6 4] by simp

text \<open>
  C2 (bounds): for every length \<open>n \<ge> 1\<close> and every index \<open>i\<close> with \<open>0 \<le> i < n\<close>, the
  advance step yields the index \<open>(i + 1) mod n\<close>, which lies in \<open>[0, n)\<close>.
\<close>

theorem advance_stays_in_bounds:
  assumes "1 \<le> n" and "0 \<le> i" and "i < n"
  shows "\<exists>j. advance (Num i) n = Num j \<and> j = (i + 1) mod n \<and> 0 \<le> j \<and> j < n"
  using assms by (simp add: advance_Num)

theorem advance_stays_in_bounds_witness:
  "(1::int) \<le> 6 \<and> (0::int) \<le> 5 \<and> (5::int) < 6 \<and>
   (\<exists>j. advance (Num 5) 6 = Num j \<and> j = (5 + 1) mod 6 \<and> 0 \<le> j \<and> j < 6)"
  using advance_stays_in_bounds [of 6 5] by simp

lemma stop_clears: "interval p = Some h \<Longrightarrow> timers (stop p) h = None \<and> interval (stop p) = Some h"
  by (simp add: stop_def clearInterval_def)

lemma ticks_stop: "ticks k ws (stop p) = stop p"
proof (cases "interval p")
  case None
  then have "stop p = p" by (simp add: stop_def)
  with None show ?thesis by (simp add: ticks_unmounted)
next
  case (Some h)
  then show ?thesis
    using stop_clears [of p h] by (intro ticks_cleared [of _ h]) simp_all
qed

lemma stop_stop: "stop (stop p) = stop p"
  by (cases "interval p") (simp_all add: stop_def clearInterval_def)

lemma mount_timers: "timers (HomePage_mount ws d) = [1 \<mapsto> d]"
  by (simp add: HomePage_mount_def setInterval_def blank_def)

text \<open>
  C3 (end-to-end scenario): with a list of three words and the interval 2000 ms, the
  state being created with index 0 at mount, the word displayed after tick \<open>k\<close> is
  element \<open>k mod 3\<close> of the list: the second word after one tick, the third after two,
  the first again after three.
\<close>

theorem three_words_scenario:
  assumes "length ws = 3"
  shows "currentWordIndex (HomePage_mount ws 2000) = Num 0 \<and>
         displayed ws (ticks k ws (HomePage_mount ws 2000)) = Some (ws ! (k mod 3))"
proof -
  from assms have "ws \<noteq> []" by auto
  then have "displayed ws (ticks k ws (HomePage_mount ws 2000)) = Some (ws ! (k mod length ws))"
    by (rule displayed_mount)
  with assms show ?thesis by (simp add: mount_fields)
qed

theorem three_words_scenario_witness:
  "length [''a'', ''b'', ''c''] = 3 \<and>
   displayed [''a'', ''b'', ''c''] (HomePage_mount [''a'', ''b'', ''c''] 2000) = Some ''a'' \<and>
   displayed [''a'', ''b'', ''c''] (ticks 1 [''a'', ''b'', ''c''] (HomePage_mount [''a'', ''b'', ''c''] 2000)) = Some ''b'' \<and>
   displayed [''a'', ''b'', ''c''] (ticks 2 [''a'', ''b'', ''c''] (HomePage_mount [''a'', ''b'', ''c''] 2000)) = Some ''c'' \<and>
   displayed [''a'', ''b'', ''c''] (ticks 3 [''a'', ''b'', ''c''] (HomePage_mount [''a'', ''b'', ''c''] 2000)) = Some ''a''"
  using three_words_scenario [of "[''a'', ''b'', ''c'']" 0]
    three_words_scenario [of "[''a'', ''b'', ''c'']" 1]
    three_words_scenario [of "[''a'', ''b'', ''c'']" 2]
    three_words_scenario [of "[''a'', ''b'', ''c'']" 3]
  by simp

text \<open>
  C7 (stop): the cleanup of the effect cancels the timer of a started cycler, that is,
  it removes it from the browser's table, which is then empty, so that no handle fires
  any more. From then on no number of elapsed intervals changes the index or anything
  else of the page, and running the cleanup a second time changes nothing either
  (clearing a cleared timer is ignored, nothing is raised).
\<close>

theorem stop_freezes_index:
  "currentWordIndex (ticks k ws (stop (ticks j ws (HomePage_mount ws d)))) =
     currentWordIndex (ticks j ws (HomePage_mount ws d)) \<and>
   \<not> started (stop (ticks j ws (HomePage_mount ws d))) \<and>
   ticks k ws (stop p) = stop p \<and>
   stop (stop p) = stop p \<and>
   started (ticks j ws (HomePage_mount ws d)) \<and>
   timers (ticks j ws (HomePage_mount ws d)) = [1 \<mapsto> d] \<and>
   timers (stop (ticks j ws (HomePage_mount ws d))) = Map.empty \<and>
   fire ws h (stop (ticks j ws (HomePage_mount ws d))) = stop (ticks j ws (HomePage_mount ws d)) \<and>
   timers (stop p) h = (if interval p = Some h then None else timers p h)"
proof -
  let ?p = "ticks j ws (HomePage_mount ws d)"
  have run: "?p = (HomePage_mount ws d)\<lparr>currentWordIndex :=
      advance_times j (int (length ws)) (currentWordIndex (HomePage_mount ws d))\<rparr>"
    by (rule ticks_active) (rule mount_fields)+
  have handle: "interval ?p = Some 1"
    by (simp add: run mount_fields)
  have table: "timers ?p = [1 \<mapsto> d]"
    by (simp add: run mount_timers)
  have on: "started ?p"
    by (simp add: started_def handle table)
  have "timers (stop ?p) = (timers ?p)(1 := None)"
    by (simp add: stop_def handle clearInterval_def)
  then have cleared: "timers (stop ?p) = Map.empty"
    by (simp add: table)
  have off: "\<not> started (stop ?p)"
    using stop_clears [OF handle] by (simp add: started_def)
  have quiet: "fire ws h (stop ?p) = stop ?p"
    by (simp add: fire_def cleared)
  have same: "currentWordIndex (stop ?p) = currentWordIndex ?p"
    by (simp add: stop_def handle clearInterval_def)
  have frozen: "currentWordIndex (ticks k ws (stop ?p)) = currentWordIndex ?p"
    by (simp only: ticks_stop same)
  have general: "timers (stop p) h = (if interval p = Some h then None else timers p h)"
    by (cases "interval p") (simp_all add: stop_def clearInterval_def)
  from frozen off ticks_stop [of k ws p] stop_stop [of p] on table cleared quiet general
  show ?thesis
    by (intro conjI)
qed

text \<open>
  On the page as deployed: two ticks bring the index to 2, the timer being in the
  table; the cleanup empties the table, and five more intervals leave the index at 2,
  where without the cleanup they bring it to 1.
\<close>

theorem stop_freezes_index_witness:
  "currentWordIndex (ticks 2 rotatingWords (HomePage_mount rotatingWords intervalMs)) = Num 2 \<and>
   currentWordIndex
     (ticks 5 rotatingWords
        (stop (ticks 2 rotatingWords (HomePage_mount rotatingWords intervalMs)))) = Num 2 \<and>
   currentWordIndex
     (ticks 5 rotatingWords
        (ticks 2 rotatingWords (HomePage_mount rotatingWords intervalMs))) = Num 1 \<and>
   timers (ticks 2 rotatingWords (HomePage_mount rotatingWords intervalMs)) 1 = Some 2000 \<and>
   timers (stop (ticks 2 rotatingWords (HomePage_mount rotatingWords intervalMs))) 1 = None"
proof -
  let ?p = "ticks 2 rotatingWords (HomePage_mount rotatingWords intervalMs)"
  note all = stop_freezes_index [of 5 rotatingWords 2 intervalMs "blank" 1]
  have ne: "rotatingWords \<noteq> []" and len: "length rotatingWords = 6"
    by (simp_all add: rotatingWords_def)
  have two: "currentWordIndex ?p = Num 2"
    using ticks_mount [OF ne, of 2 intervalMs] by (simp add: len)
  have "ticks 5 rotatingWords ?p = ticks 7 rotatingWords (HomePage_mount rotatingWords intervalMs)"
    by (simp add: numeral_eq_Suc)
  then have seven: "currentWordIndex (ticks 5 rotatingWords ?p) = Num 1"
    using ticks_mount [OF ne, of 7 intervalMs] by (simp add: len)
  have "currentWordIndex (ticks 5 rotatingWords (stop ?p)) = currentWordIndex ?p"
    using all by (rule conjunct1)
  then have frozen: "currentWordIndex (ticks 5 rotatingWords (stop ?p)) = Num 2"
    by (simp only: two)
  have "timers ?p = [1 \<mapsto> intervalMs]"
    using all by blast
  then have before: "timers ?p 1 = Some 2000"
    by (simp add: intervalMs_def)
  have "timers (stop ?p) = Map.empty"
    using all by blast
  then have after: "timers (stop ?p) 1 = None"
    by simp
  from two frozen seven before after show ?thesis
    by (intro conjI)
qed

text \<open>
  C10 (deployed configuration): the word list of the page has six elements and the
  delay is 2000 ms, so the modulus of the advance step is positive, the index after
  \<open>k\<close> ticks is \<open>k mod 6\<close>, and the rendered expression selects a word of the list at
  every tick.
\<close>

theorem deployed_preconditions_hold:
  "length rotatingWords = 6 \<and> intervalMs = 2000 \<and> 0 < int (length rotatingWords) \<and>
   currentWordIndex (ticks k rotatingWords (HomePage_mount rotatingWords intervalMs)) =
     Num (int (k mod 6)) \<and>
   displayed rotatingWords (ticks k rotatingWords (HomePage_mount rotatingWords intervalMs)) =
     Some (rotatingWords ! (k mod 6)) \<and>
   rotatingWords ! (k mod 6) \<in> set rotatingWords"
proof -
  have len: "length rotatingWords = 6"
    by (simp add: rotatingWords_def)
  then have ne: "rotatingWords \<noteq> []"
    by auto
  have idx: "currentWordIndex (ticks k rotatingWords (HomePage_mount rotatingWords intervalMs)) =
      Num (int (k mod 6))"
    using ticks_mount [OF ne, of k intervalMs] by (simp add: len zmod_int)
  have disp: "displayed rotatingWords
      (ticks k rotatingWords (HomePage_mount rotatingWords intervalMs)) =
      Some (rotatingWords ! (k mod 6))"
    using displayed_mount [OF ne, of k intervalMs] by (simp add: len)
  have "k mod 6 < length rotatingWords"
    by (simp add: len)
  then have "rotatingWords ! (k mod 6) \<in> set rotatingWords"
    by (rule nth_mem)
  with len idx disp show ?thesis
    by (simp add: intervalMs_def)
qed

section \<open>The theme preference\<close>

text \<open>
  C4 (toggle): the toggle maps light to dark and dark to light, and applying it twice
  gives back the value it started from.
\<close>

theorem toggle_involution:
  "toggle Light = Dark \<and> toggle Dark = Light \<and> toggle (toggle x) = x"
  by (cases x) simp_all

text \<open>
  C5 (initialize): whatever the storage holds, \<open>initialize\<close> returns the persisted theme
  when the entry is one of the two literals, and the default when the entry is missing,
  when it is any other string, and when the storage cannot be read; it always returns
  a theme.
\<close>

theorem initialize_persisted_or_default:
  "(getItem st key = Inr (Some (theme_name v)) \<longrightarrow> initialize st key d = v) \<and>
   (getItem st key = Inr None \<longrightarrow> initialize st key d = d) \<and>
   (getItem st key = Inr (Some s) \<and> s \<noteq> ''light'' \<and> s \<noteq> ''dark'' \<longrightarrow> initialize st key d = d) \<and>
   (getItem st key = Inl e \<longrightarrow> initialize st key d = d)"
  by (cases v) (simp_all add: initialize_def parse_theme_def)

theorem initialize_persisted_or_default_witness:
  "initialize (Available [''angel-ui-theme'' \<mapsto> ''dark'']) ''angel-ui-theme'' Light = Dark \<and>
   initialize (Available Map.empty) ''angel-ui-theme'' Light = Light \<and>
   initialize (Available [''angel-ui-theme'' \<mapsto> ''purple'']) ''angel-ui-theme'' Light = Light \<and>
   initialize Unavailable ''angel-ui-theme'' Dark = Dark"
  using
    initialize_persisted_or_default [of "Available [''angel-ui-theme'' \<mapsto> ''dark'']"
      "''angel-ui-theme''" Dark Light "''dark''" StorageDisabled]
    initialize_persisted_or_default [of "Available Map.empty"
      "''angel-ui-theme''" Dark Light "''purple''" StorageDisabled]
    initialize_persisted_or_default [of "Available [''angel-ui-theme'' \<mapsto> ''purple'']"
      "''angel-ui-theme''" Dark Light "''purple''" StorageDisabled]
    initialize_persisted_or_default [of Unavailable
      "''angel-ui-theme''" Dark Dark "''purple''" StorageDisabled]
  by (simp add: getItem_def)

text \<open>
  C6 (persistence round-trip): for both theme values \<open>v\<close>, once \<open>apply\<close> has written \<open>v\<close>
  to the storage, \<open>initialize\<close> with the same key returns \<open>v\<close>, whatever the default.
\<close>

theorem apply_initialize_roundtrip:
  assumes "persisted s = Available m"
  shows "persisted (apply_theme key v s) = Available (m(key \<mapsto> theme_name v)) \<and>
         initialize (persisted (apply_theme key v s)) key d = v"
  using assms
  by (cases v) (simp_all add: apply_theme_def setItem_def initialize_def getItem_def parse_theme_def)

theorem apply_initialize_roundtrip_witness:
  "persisted \<lparr>broadcast = Light, persisted = Available Map.empty, root_class = ''light''\<rparr> =
     Available Map.empty \<and>
   initialize
     (persisted (apply_theme ''angel-ui-theme'' Dark
        \<lparr>broadcast = Light, persisted = Available Map.empty, root_class = ''light''\<rparr>))
     ''angel-ui-theme'' Light = Dark"
proof -
  let ?s = "\<lparr>broadcast = Light, persisted = Available Map.empty, root_class = ''light''\<rparr>"
  have h: "persisted ?s = Available Map.empty"
    by simp
  have "initialize (persisted (apply_theme ''angel-ui-theme'' Dark ?s)) ''angel-ui-theme'' Light =
      Dark"
    using apply_initialize_roundtrip [OF h] by (rule conjunct2)
  with h show ?thesis
    by (intro conjI)
qed

text \<open>
  C9 (configuration): the layout configures the theme provider with the storage key
  \<open>angel-ui-theme\<close> and the default \<open>light\<close>, the stylesheet build selects the dark
  variant by a class, and what \<open>apply\<close> persists under that key is one of the literals
  \<open>light\<close> and \<open>dark\<close>, the other entries of the storage being left alone.
\<close>

theorem root_theme_configuration:
  "storageKey RootLayout = ''angel-ui-theme'' \<and>
   defaultTheme RootLayout = ''light'' \<and>
   parse_theme (defaultTheme RootLayout) = Some Light \<and>
   darkMode = ''class'' \<and>
   persisted (apply_theme (storageKey RootLayout) v (s\<lparr>persisted := Available m\<rparr>)) =
     Available (m(''angel-ui-theme'' \<mapsto> theme_name v)) \<and>
   (theme_name v = ''light'' \<or> theme_name v = ''dark'') \<and>
   root_class (apply_theme (storageKey RootLayout) v s) = theme_name v"
  by (cases v) (simp_all add: RootLayout_def darkMode_def parse_theme_def apply_theme_def setItem_def)

end
